theory Spec2Isabelle
  imports Main
begin

section \<open>Errors\<close>

text \<open>
  A Go \<^verbatim>\<open>error\<close> is an interface value: \<^verbatim>\<open>nil\<close> or an error. The model
  writes it as \<open>error option\<close>, \<open>None\<close> being \<^verbatim>\<open>nil\<close>. The constructors are
  the error values the validator can see: the sentinel value of the signature library
  that the code compares by identity, any other error a library call returns, and the
  values built by \<^verbatim>\<open>errors.New\<close>, \<^verbatim>\<open>errors.Errorf\<close> and
  \<^verbatim>\<open>errors.Wrap\<close>.
\<close>

datatype error =
    ErrMissingSignature
  | LibError string
  | ErrorString string
  | WithMessage error string

definition errors_New :: "string \<Rightarrow> error option" where
  "errors_New msg = Some (ErrorString msg)"

text \<open>Both format strings of the source end in their only verb, \<^verbatim>\<open>%s\<close>.\<close>

definition errors_Errorf :: "string \<Rightarrow> string \<Rightarrow> error option" where
  "errors_Errorf prefix arg = Some (ErrorString (prefix @ arg))"

text \<open>\<^verbatim>\<open>errors.Wrap\<close> annotates an error; wrapping \<^verbatim>\<open>nil\<close> gives \<^verbatim>\<open>nil\<close>.\<close>

fun errors_Wrap :: "error option \<Rightarrow> string \<Rightarrow> error option" where
  "errors_Wrap None msg = None"
| "errors_Wrap (Some err) msg = Some (WithMessage err msg)"

section \<open>Data\<close>

text \<open>An instant of time; \<^verbatim>\<open>After\<close> and \<^verbatim>\<open>Before\<close> are the strict orders.\<close>

type_synonym time = int

definition After :: "time \<Rightarrow> time \<Rightarrow> bool" where
  "After t u = (u < t)"

definition Before :: "time \<Rightarrow> time \<Rightarrow> bool" where
  "Before t u = (t < u)"

text \<open>
  A \<^verbatim>\<open>*dsig.Clock\<close>: the real clock, or a clock fixed for a test. A \<^verbatim>\<open>nil\<close>
  pointer (\<open>None\<close>) is read as the real clock.
\<close>

datatype clock = RealClock | FakeClock time

text \<open>
  An element of an XML tree: the namespace its name resolves to, its local name, its
  character data and its child elements. Elements are mutable objects in the source; the
  model gives an element of the parsed document the path from the root as its identity
  (the root is \<open>[]\<close>, its \<open>i\<close>-th child \<open>[i]\<close>).
\<close>

datatype element = Element (space: string) (tag: string) (chardata: string) (child: "element list")

text \<open>
  A document holds its top-level tokens in order: elements, and whatever else stands
  beside them (declarations, comments, character data). Its root is the first element.
  Nothing in the tree library keeps a document to one top-level element.
\<close>

datatype token = ElementToken element | OtherToken string

record document =
  Child :: "token list"

fun firstElement :: "token list \<Rightarrow> element option" where
  "firstElement [] = None"
| "firstElement (ElementToken el # ts) = Some el"
| "firstElement (OtherToken x # ts) = firstElement ts"

definition Root :: "document \<Rightarrow> element option" where
  "Root doc = firstElement (Child doc)"

text \<open>
  The root is an object that the verifier changes in place: the document then holds
  it in its new state. Unbinding the root takes its token out of the document.
\<close>

fun setFirstElement :: "element \<Rightarrow> token list \<Rightarrow> token list" where
  "setFirstElement el [] = []"
| "setFirstElement el (ElementToken old # ts) = ElementToken el # ts"
| "setFirstElement el (OtherToken x # ts) = OtherToken x # setFirstElement el ts"

fun removeFirstElement :: "token list \<Rightarrow> token list" where
  "removeFirstElement [] = []"
| "removeFirstElement (ElementToken old # ts) = ts"
| "removeFirstElement (OtherToken x # ts) = OtherToken x # removeFirstElement ts"

type_synonym certificate = string

record KeyDescriptor =
  X509CertificateData :: string

record EntityDescriptor =
  KeyDescriptors :: "KeyDescriptor list"

text \<open>
  Modelled from the spec: the structured Response, whose declaration is not among the
  sources. The source reads \<^verbatim>\<open>response.Assertion.Conditions.NotOnOrAfter\<close> and
  \<^verbatim>\<open>NotBefore\<close> as strings; the spec adds identity claims (one field here) and
  a status. \<open>Rest\<close> stands for whatever else of the document the structured model
  keeps.
\<close>

record Conditions =
  NotBefore :: string
  NotOnOrAfter :: string

record Assertion =
  Conditions :: Conditions
  NameID :: string

record Response =
  StatusCode :: string
  Assertion :: Assertion
  Rest :: "string list"

text \<open>
  Modelled from the spec: the concrete \<^verbatim>\<open>resp\<close> behind the Auth interface (its
  declaration is not among the sources): the raw transport payload and the held
  structured Response, a pointer that may be \<^verbatim>\<open>nil\<close>. \<^verbatim>\<open>setResponse\<close> replaces
  that pointer.
\<close>

record resp =
  response :: "Response option"
  rawResp :: string

definition setResponse :: "resp \<Rightarrow> Response \<Rightarrow> resp" where
  "setResponse info r = info\<lparr>response := Some r\<rparr>"

text \<open>
  An Auth interface value: a \<^verbatim>\<open>*resp\<close>, another implementation of the interface
  (known here by the user id it reports), or the \<^verbatim>\<open>nil\<close> interface.
\<close>

datatype auth = RespAuth resp | OtherAuth string | NilAuth

datatype status = Success | OtherStatus int

text \<open>The validator: the roots of the validation context, its clock, the metadata.\<close>

record validator =
  metadata :: EntityDescriptor
  clock :: "clock option"
  contextRoots :: "certificate list"
  contextClock :: "clock option"

text \<open>What a call does: it returns, or it panics.\<close>

datatype 'a outcome = Panic | Returns 'a

section \<open>The libraries and the rest of the package\<close>

text \<open>
  The functions the validator calls and whose code is not among the sources are
  parameters of the model, gathered in one record: the standard library (base64, XML
  unmarshalling, X.509 parsing, RFC 3339 time parsing, the wall clock), the XML tree
  library (reading and writing a document), the XML signature library (validation of an
  element against trusted roots at a time; detaching an element with the namespace
  context of its ancestors), and the methods of \<^verbatim>\<open>resp\<close>. \<open>setRootUnbinds\<close>
  says whether the tree library's \<^verbatim>\<open>SetRoot\<close> unbinds an element from the
  document it is bound to, as its documentation says.
\<close>

record env =
  b64DecodeString :: "string \<Rightarrow> error + string"
  xmlUnmarshalMetadata :: "string \<Rightarrow> error + EntityDescriptor"
  xmlUnmarshalResponse :: "string \<Rightarrow> error + Response"
  x509ParseCertificate :: "string \<Rightarrow> error + certificate"
  timeParseRFC3339 :: "string \<Rightarrow> error + time"
  wallClock :: time
  ReadFromBytes :: "string \<Rightarrow> error option \<times> document"
  WriteToBytes :: "document \<Rightarrow> error + string"
  setRootUnbinds :: bool
  contextValidate :: "certificate list \<Rightarrow> time \<Rightarrow> element \<Rightarrow> error + element"
  NSDetatch :: "element list \<Rightarrow> element \<Rightarrow> error + element"
  respStatus :: "resp \<Rightarrow> error + status"
  statusDescription :: "resp \<Rightarrow> string"
  rawResponse :: "resp \<Rightarrow> string"
  respUserID :: "resp \<Rightarrow> string"

definition Now :: "env \<Rightarrow> clock option \<Rightarrow> time" where
  "Now e c = (case c of Some (FakeClock t) \<Rightarrow> t | _ \<Rightarrow> wallClock e)"

definition UserID :: "env \<Rightarrow> auth \<Rightarrow> string" where
  "UserID e a = (case a of RespAuth info \<Rightarrow> respUserID e info | OtherAuth uid \<Rightarrow> uid | NilAuth \<Rightarrow> [])"

section \<open>NewValidator\<close>

text \<open>The option \<^verbatim>\<open>Clock\<close> sets the validator's clock.\<close>

definition Clock :: "clock \<Rightarrow> validator \<Rightarrow> validator" where
  "Clock c v = v\<lparr>clock := Some c\<rparr>"

text \<open>
  The loop over the key descriptors, with the roots collected so far. It returns at the
  first certificate that does not decode or does not parse.
\<close>

fun loadRoots :: "env \<Rightarrow> KeyDescriptor list \<Rightarrow> certificate list \<Rightarrow> error option \<times> certificate list" where
  "loadRoots e [] roots = (None, roots)"
| "loadRoots e (key # keys) roots =
     (case b64DecodeString e (X509CertificateData key) of
        Inl err \<Rightarrow> (errors_Wrap (Some err) ''decoding idp x509 cert'', roots)
      | Inr certData \<Rightarrow>
          (case x509ParseCertificate e certData of
             Inl err \<Rightarrow> (errors_Wrap (Some err) ''parsing idp x509 cert'', roots)
           | Inr cert \<Rightarrow> loadRoots e keys (roots @ [cert])))"

definition NewValidator ::
  "env \<Rightarrow> string \<Rightarrow> (validator \<Rightarrow> validator) list \<Rightarrow> validator option \<times> error option" where
  "NewValidator e md opts =
     (case xmlUnmarshalMetadata e md of
        Inl err \<Rightarrow> (None, errors_Wrap (Some err) ''unmarshalling metadata'')
      | Inr m \<Rightarrow>
          (case loadRoots e (KeyDescriptors m) [] of
             (Some err, roots) \<Rightarrow> (None, Some err)
           | (None, roots) \<Rightarrow>
               (let v0 = \<lparr>metadata = m, clock = None, contextRoots = [], contextClock = None\<rparr>;
                    v1 = fold (\<lambda>opt v. opt v) opts v0;
                    v2 = (if clock v1 = None then v1\<lparr>clock := Some RealClock\<rparr> else v1)
                in (Some (v2\<lparr>contextRoots := roots, contextClock := clock v2\<rparr>), None))))"

section \<open>ValidateResponse\<close>

text \<open>
  The type assertion \<^verbatim>\<open>auth.(*resp)\<close> panics for every value that is not a
  \<^verbatim>\<open>*resp\<close>; reading through a \<^verbatim>\<open>nil\<close> response pointer panics too.
\<close>

definition ValidateResponse :: "env \<Rightarrow> validator \<Rightarrow> auth \<Rightarrow> error option outcome" where
  "ValidateResponse e v a =
     (case a of
        RespAuth info \<Rightarrow>
          (case response info of
             None \<Rightarrow> Panic
           | Some r \<Rightarrow>
               (case timeParseRFC3339 e (NotOnOrAfter (Conditions (Assertion r))) of
                  Inl err \<Rightarrow> Returns (errors_Wrap (Some err) ''missing timestamp from condition'')
                | Inr onOrAfter \<Rightarrow>
                    (case timeParseRFC3339 e (NotBefore (Conditions (Assertion r))) of
                       Inl err \<Rightarrow> Returns (errors_Wrap (Some err) ''missing timestamp from condition'')
                     | Inr notBefore \<Rightarrow>
                         (let currentTime = Now e (clock v) in
                          if After currentTime onOrAfter then Returns (errors_New ''response expired'')
                          else if Before currentTime notBefore then Returns (errors_New ''response too early'')
                          else if UserID e a = [] then Returns (errors_New ''missing user id'')
                          else Returns None))))
      | OtherAuth uid \<Rightarrow> Panic
      | NilAuth \<Rightarrow> Panic)"

section \<open>The signature verifier\<close>

text \<open>
  The calls the verifier makes, in order: each validation of an element against the
  validation context, and the entry into per-assertion validation.
\<close>

datatype call = CallValidate element | CallValidateAssertionSignature

text \<open>
  The state of per-assertion validation: the child elements of the root as they stand,
  each original child with its index in the parsed document (its identity) and each
  element added later with none; and the calls made so far.
\<close>

record fstate =
  kids :: "(nat option \<times> element) list"
  calls :: "call list"

definition RemoveChild :: "nat \<Rightarrow> (nat option \<times> element) list \<Rightarrow> (nat option \<times> element) list" where
  "RemoveChild i ks = filter (\<lambda>k. fst k \<noteq> Some i) ks"

definition AddChild :: "element \<Rightarrow> (nat option \<times> element) list \<Rightarrow> (nat option \<times> element) list" where
  "AddChild el ks = ks @ [(None, el)]"

text \<open>
  The parent of the element at a path: the element one step up, or for the root the
  document itself (\<open>None\<close>), whose tag is empty.
\<close>

definition Parent :: "nat list \<Rightarrow> nat list option" where
  "Parent path = (if path = [] then None else Some (butlast path))"

definition ParentTag :: "element list \<Rightarrow> string" where
  "ParentTag ancestors = (if ancestors = [] then [] else tag (last ancestors))"

text \<open>
  The closure \<^verbatim>\<open>validateAssertion\<close>, called on the element \<open>unverified\<close> found at
  \<open>path\<close> under \<open>ancestors\<close> (the root first). The root \<^verbatim>\<open>elt\<close> is the path \<open>[]\<close>.
\<close>

definition validateAssertion ::
  "env \<Rightarrow> validator \<Rightarrow> element list \<Rightarrow> nat list \<Rightarrow> element \<Rightarrow> fstate \<Rightarrow> error option \<times> fstate" where
  "validateAssertion e v ancestors path unverified st =
     (if Parent path \<noteq> Some [] then
        (errors_Errorf ''assertion with unexpected parent: '' (ParentTag ancestors), st)
      else
        (case NSDetatch e (ancestors @ [unverified]) unverified of
           Inl err \<Rightarrow> (Some err, st)
         | Inr detached \<Rightarrow>
             (let st1 = st\<lparr>calls := calls st @ [CallValidate detached]\<rparr> in
              case contextValidate e (contextRoots v) (Now e (contextClock v)) detached of
                Inl err \<Rightarrow> (Some err, st1)
              | Inr signed \<Rightarrow>
                  (None, st1\<lparr>kids := AddChild signed (RemoveChild (last path) (kids st1))\<rparr>))))"

text \<open>
  \<^verbatim>\<open>NSFindIterate\<close> of the signature library: a depth-first traversal from the
  root, parents before children and children in document order, that calls the handler
  on every element with the sought namespace and tag and stops at the first error. The
  children of an element are listed when the traversal reaches it, so the traversal
  walks the tree as it was parsed.
\<close>

definition isAssertion :: "element \<Rightarrow> bool" where
  "isAssertion el = (space el = ''urn:oasis:names:tc:SAML:2.0:assertion'' \<and> tag el = ''Assertion'')"

lemma size_child_less: "Suc (2 * size_list size (child el)) < 2 * size el"
  by (cases el) simp

function NSTraverse ::
    "env \<Rightarrow> validator \<Rightarrow> element list \<Rightarrow> nat list \<Rightarrow> element \<Rightarrow> fstate \<Rightarrow> error option \<times> fstate"
  and NSTraverseChildren ::
    "env \<Rightarrow> validator \<Rightarrow> element list \<Rightarrow> nat list \<Rightarrow> nat \<Rightarrow> element list \<Rightarrow> fstate \<Rightarrow> error option \<times> fstate"
where
  "NSTraverse e v ancestors path el st =
     (case (if isAssertion el then validateAssertion e v ancestors path el st else (None, st)) of
        (Some err, st1) \<Rightarrow> (Some err, st1)
      | (None, st1) \<Rightarrow> NSTraverseChildren e v (ancestors @ [el]) path 0 (child el) st1)"
| "NSTraverseChildren e v ancestors path i [] st = (None, st)"
| "NSTraverseChildren e v ancestors path i (c # cs) st =
     (case NSTraverse e v ancestors (path @ [i]) c st of
        (Some err, st1) \<Rightarrow> (Some err, st1)
      | (None, st1) \<Rightarrow> NSTraverseChildren e v ancestors path (Suc i) cs st1)"
  by pat_completeness auto
termination
  by (relation "measure (\<lambda>x. case x of
          Inl (e, v, ancestors, path, el, st) \<Rightarrow> 2 * size el
        | Inr (e, v, ancestors, path, i, cs, st) \<Rightarrow> 2 * size_list size cs + 1)")
     (auto simp: size_child_less)

text \<open>
  The traversal starts at the root, which has no ancestors, and returns the error of
  the handler. (The value by which a handler asks the traversal to stop without an
  error is not among the errors of the model: the handler of the source does not make
  it, and the calls it makes return errors of their own.)
\<close>

definition NSFindIterate :: "env \<Rightarrow> validator \<Rightarrow> element \<Rightarrow> fstate \<Rightarrow> error option \<times> fstate" where
  "NSFindIterate e v elt st = NSTraverse e v [] [] elt st"

definition enumerate_kids :: "element list \<Rightarrow> (nat option \<times> element) list" where
  "enumerate_kids cs = zip (map Some [0..<length cs]) cs"

text \<open>
  \<^verbatim>\<open>validateAssertionSignature\<close> returns the error and leaves the root as the
  handler calls have changed it.
\<close>

definition validateAssertionSignature ::
  "env \<Rightarrow> validator \<Rightarrow> element \<Rightarrow> call list \<Rightarrow> error option \<times> element \<times> call list" where
  "validateAssertionSignature e v elt cl =
     (case NSFindIterate e v elt \<lparr>kids = enumerate_kids (child elt), calls = cl @ [CallValidateAssertionSignature]\<rparr> of
        (err, st) \<Rightarrow> (err, Element (space elt) (tag elt) (chardata elt) (map snd (kids st)), calls st))"

text \<open>
  The element \<^verbatim>\<open>validateSignature\<close> returns: the root it was given (the same
  object), or a new element made by the validation.
\<close>

datatype eref = EltRef | NewElt element

definition validateSignature ::
  "env \<Rightarrow> validator \<Rightarrow> element \<Rightarrow> (error + eref) \<times> element \<times> call list" where
  "validateSignature e v elt =
     (case contextValidate e (contextRoots v) (Now e (contextClock v)) elt of
        Inr validated \<Rightarrow> (Inr (NewElt validated), elt, [CallValidate elt])
      | Inl err \<Rightarrow>
          (if err = ErrMissingSignature then
             (case validateAssertionSignature e v elt [CallValidate elt] of
                (Some err1, elt1, cl) \<Rightarrow> (Inl err1, elt1, cl)
              | (None, elt1, cl) \<Rightarrow> (Inr EltRef, elt1, cl))
           else (Inl err, elt, [CallValidate elt])))"

section \<open>ValidateSignature\<close>

text \<open>
  \<^verbatim>\<open>signedDoc.SetRoot(signed)\<close> on a new document: that document gets the
  element as its only token. The document \<open>doc\<close> holds its root \<^verbatim>\<open>elt\<close> in
  the state \<open>elt1\<close> the verifier left it in, with every other token as it was read;
  when the element given to the new document is that root and \<^verbatim>\<open>SetRoot\<close>
  unbinds, \<open>doc\<close> loses the root and keeps the rest. The result is the pair of
  \<^verbatim>\<open>signedDoc\<close> and \<^verbatim>\<open>doc\<close> after the call.
\<close>

definition SetRoot :: "env \<Rightarrow> eref \<Rightarrow> element \<Rightarrow> document \<Rightarrow> document \<times> document" where
  "SetRoot e signed elt1 doc =
     (case signed of
        NewElt el \<Rightarrow> (\<lparr>Child = [ElementToken el]\<rparr>, doc\<lparr>Child := setFirstElement elt1 (Child doc)\<rparr>)
      | EltRef \<Rightarrow>
          (\<lparr>Child = [ElementToken elt1]\<rparr>,
           if setRootUnbinds e then doc\<lparr>Child := removeFirstElement (Child doc)\<rparr>
           else doc\<lparr>Child := setFirstElement elt1 (Child doc)\<rparr>))"

text \<open>
  The result of \<^verbatim>\<open>ValidateSignature\<close> on a \<^verbatim>\<open>*resp\<close>: the returned Auth and
  error, and the \<^verbatim>\<open>resp\<close> object as the call leaves it.
\<close>

definition ValidateSignature_resp ::
  "env \<Rightarrow> validator \<Rightarrow> resp \<Rightarrow> (auth option \<times> error option) \<times> resp" where
  "ValidateSignature_resp e v info =
     (case respStatus e info of
        Inl err \<Rightarrow> ((None, errors_New ''missing or malformed response''), info)
      | Inr status \<Rightarrow>
          (if status \<noteq> Success then
             ((None, errors_Errorf ''response status '' (statusDescription e info)), info)
           else
             (case b64DecodeString e (rawResponse e info) of
                Inl err \<Rightarrow> ((None, errors_Wrap (Some err) ''based64 decoding response''), info)
              | Inr decoded \<Rightarrow>
                  (case ReadFromBytes e decoded of
                     (err, doc) \<Rightarrow>
                       (if err \<noteq> None \<or> Root doc = None then
                          ((None, errors_Wrap err ''parsing xml response''), info)
                        else
                          (let elt = the (Root doc) in
                           case validateSignature e v elt of
                             (Inl err1, elt1, cl) \<Rightarrow>
                               ((None, errors_Wrap (Some err1) ''signing verification failed''), info)
                           | (Inr signed, elt1, cl) \<Rightarrow>
                               (case SetRoot e signed elt1 doc of
                                  (signedDoc, doc1) \<Rightarrow>
                                    (case WriteToBytes e doc1 of
                                       Inl err2 \<Rightarrow>
                                         ((None, errors_Wrap (Some err2) ''creating signed doc buffer''), info)
                                     | Inr buffer \<Rightarrow>
                                         (case xmlUnmarshalResponse e buffer of
                                            Inl err3 \<Rightarrow>
                                              ((None, errors_Wrap (Some err3) ''unmarshalling signed doc''), info)
                                          | Inr r \<Rightarrow>
                                              (let info1 = setResponse info r
                                               in ((Some (RespAuth info1), None), info1)))))))))))"

text \<open>The public operation: the type assertion first, as in \<open>ValidateResponse\<close>.\<close>

definition ValidateSignature ::
  "env \<Rightarrow> validator \<Rightarrow> auth \<Rightarrow> ((auth option \<times> error option) \<times> resp) outcome" where
  "ValidateSignature e v a =
     (case a of
        RespAuth info \<Rightarrow> Returns (ValidateSignature_resp e v info)
      | OtherAuth uid \<Rightarrow> Panic
      | NilAuth \<Rightarrow> Panic)"

section \<open>A test environment\<close>

text \<open>
  Test doubles for the libraries, used to run the model on concrete responses. A
  signature is a child element \<open>Signature\<close> whose character data names the signing
  certificate; validation succeeds when that certificate is a trusted root and returns
  the element without its signature, fails with the missing-signature value when there
  is no signature, and fails with another error otherwise.
\<close>

definition testValidate :: "certificate list \<Rightarrow> time \<Rightarrow> element \<Rightarrow> error + element" where
  "testValidate roots now el =
     (case filter (\<lambda>c. tag c = ''Signature'') (child el) of
        [] \<Rightarrow> Inl ErrMissingSignature
      | sg # sgs \<Rightarrow>
          (if chardata sg \<in> set roots
           then Inr (Element (space el) (tag el) (chardata el) (filter (\<lambda>c. tag c \<noteq> ''Signature'') (child el)))
           else Inl (LibError ''Could not verify certificate against trusted certs'')))"

fun render :: "element \<Rightarrow> string" where
  "render (Element s t cd cs) = ''<'' @ t @ ''>'' @ cd @ concat (map render cs) @ ''</'' @ t @ ''>''"

definition textOf :: "string \<Rightarrow> element list \<Rightarrow> string" where
  "textOf t cs = (case find (\<lambda>c. tag c = t) cs of None \<Rightarrow> [] | Some c \<Rightarrow> chardata c)"

definition childrenOf :: "string \<Rightarrow> element list \<Rightarrow> element list" where
  "childrenOf t cs = (case find (\<lambda>c. tag c = t) cs of None \<Rightarrow> [] | Some c \<Rightarrow> child c)"

definition responseOf :: "element \<Rightarrow> Response" where
  "responseOf el =
     \<lparr>StatusCode = textOf ''StatusCode'' (child el),
      Assertion =
        \<lparr>Conditions =
           \<lparr>NotBefore = textOf ''NotBefore'' (childrenOf ''Conditions'' (childrenOf ''Assertion'' (child el))),
            NotOnOrAfter = textOf ''NotOnOrAfter'' (childrenOf ''Conditions'' (childrenOf ''Assertion'' (child el)))\<rparr>,
         NameID = textOf ''NameID'' (childrenOf ''Assertion'' (child el))\<rparr>,
      Rest = map tag (filter (\<lambda>c. tag c \<noteq> ''StatusCode'' \<and> tag c \<noteq> ''Assertion'') (child el))\<rparr>"

definition sig :: "string \<Rightarrow> element" where
  "sig cert = Element ''http://www.w3.org/2000/09/xmldsig#'' ''Signature'' cert []"

definition statusCode :: "string \<Rightarrow> element" where
  "statusCode c = Element ''urn:oasis:names:tc:SAML:2.0:protocol'' ''StatusCode'' c []"

definition assertion :: "element list \<Rightarrow> string \<Rightarrow> element list \<Rightarrow> element" where
  "assertion sigs name extra =
     Element ''urn:oasis:names:tc:SAML:2.0:assertion'' ''Assertion'' []
       (sigs @
        [Element ''urn:oasis:names:tc:SAML:2.0:assertion'' ''Conditions'' []
           [Element ''urn:oasis:names:tc:SAML:2.0:assertion'' ''NotBefore'' ''2017-01-01T00:00:00Z'' [],
            Element ''urn:oasis:names:tc:SAML:2.0:assertion'' ''NotOnOrAfter'' ''2017-01-01T01:00:00Z'' []],
         Element ''urn:oasis:names:tc:SAML:2.0:assertion'' ''NameID'' name []] @ extra)"

definition responseElt :: "element list \<Rightarrow> element" where
  "responseElt cs = Element ''urn:oasis:names:tc:SAML:2.0:protocol'' ''Response'' [] cs"

text \<open>A response signed as a whole, and what its validation returns.\<close>

definition docSigned :: element where
  "docSigned = responseElt [sig ''idp'', statusCode ''Success'', assertion [] ''alice'' []]"

definition docSignedVerified :: element where
  "docSignedVerified = responseElt [statusCode ''Success'', assertion [] ''alice'' []]"

text \<open>A response whose only assertion is signed; one with no signature at all.\<close>

definition docAssertionSigned :: element where
  "docAssertionSigned = responseElt [statusCode ''Success'', assertion [sig ''idp''] ''alice'' []]"

definition docUnsigned :: element where
  "docUnsigned = responseElt [statusCode ''Success'', assertion [] ''alice'' []]"

text \<open>A response with an untrusted signature on the root and a signed assertion inside.\<close>

definition docBadRootSignature :: element where
  "docBadRootSignature =
     responseElt [sig ''mallory'', statusCode ''Success'', assertion [sig ''idp''] ''alice'' []]"

text \<open>
  A signed assertion nested in a signed one; and a response whose first assertion has
  an untrusted signature and whose second one is nested in another element.
\<close>

definition docNested :: element where
  "docNested =
     responseElt [statusCode ''Success'',
       assertion [sig ''idp''] ''alice'' [assertion [sig ''idp''] ''bob'' []]]"

definition docBadThenNested :: element where
  "docBadThenNested =
     responseElt [statusCode ''Success'',
       assertion [sig ''mallory''] ''eve'' [],
       Element ''urn:oasis:names:tc:SAML:2.0:protocol'' ''Extensions'' [] [assertion [sig ''idp''] ''alice'' []]]"

text \<open>
  A payload with two top-level elements: a response whose assertion is signed, and
  after it a response nobody signed.
\<close>

definition docForged :: element where
  "docForged = responseElt [statusCode ''Success'', assertion [] ''mallory'' []]"

definition single :: "element \<Rightarrow> document" where
  "single el = \<lparr>Child = [ElementToken el]\<rparr>"

definition docTwoRoots :: document where
  "docTwoRoots = \<lparr>Child = [ElementToken docAssertionSigned, ElementToken docForged]\<rparr>"

definition testDocuments :: "document list" where
  "testDocuments =
     map single
       [docSigned, docSignedVerified, docAssertionSigned, docBadRootSignature, docNested,
        docBadThenNested, docForged]
     @ [docTwoRoots]"

fun renderToken :: "token \<Rightarrow> string" where
  "renderToken (ElementToken el) = render el"
| "renderToken (OtherToken x) = x"

definition renderDocument :: "document \<Rightarrow> string" where
  "renderDocument d = concat (map renderToken (Child d))"

definition testTimes :: "(string \<times> time) list" where
  "testTimes = [(''2017-01-01T00:00:00Z'', 1483228800), (''2017-01-01T01:00:00Z'', 1483232400)]"

definition testMetadata :: "(string \<times> EntityDescriptor) list" where
  "testMetadata =
     [(''one-key'', \<lparr>KeyDescriptors = [\<lparr>X509CertificateData = ''idp''\<rparr>]\<rparr>),
      (''bad-base64'', \<lparr>KeyDescriptors = [\<lparr>X509CertificateData = ''idp''\<rparr>, \<lparr>X509CertificateData = ''!''\<rparr>]\<rparr>),
      (''bad-x509'', \<lparr>KeyDescriptors = [\<lparr>X509CertificateData = []\<rparr>, \<lparr>X509CertificateData = ''idp''\<rparr>]\<rparr>)]"

definition testEnv :: env where
  "testEnv =
     \<lparr>b64DecodeString = (\<lambda>s. if CHR ''!'' \<in> set s then Inl (LibError ''illegal base64 data'') else Inr s),
      xmlUnmarshalMetadata =
        (\<lambda>s. case map_of testMetadata s of None \<Rightarrow> Inl (LibError ''EOF'') | Some m \<Rightarrow> Inr m),
      xmlUnmarshalResponse =
        (\<lambda>b. case find (\<lambda>d. renderDocument d = b) testDocuments of
                None \<Rightarrow> Inl (LibError ''EOF'')
              | Some d \<Rightarrow> (case Root d of None \<Rightarrow> Inl (LibError ''EOF'') | Some el \<Rightarrow> Inr (responseOf el))),
      x509ParseCertificate = (\<lambda>s. if s = [] then Inl (LibError ''x509: malformed certificate'') else Inr s),
      timeParseRFC3339 =
        (\<lambda>s. case map_of testTimes s of None \<Rightarrow> Inl (LibError ''cannot parse as RFC 3339'') | Some t \<Rightarrow> Inr t),
      wallClock = 1500000000,
      ReadFromBytes =
        (\<lambda>b. if b = [] then (None, \<lparr>Child = []\<rparr>)
             else (case find (\<lambda>d. renderDocument d = b) testDocuments of
                     None \<Rightarrow> (Some (LibError ''XML syntax error''), \<lparr>Child = []\<rparr>)
                   | Some d \<Rightarrow> (None, d))),
      WriteToBytes = (\<lambda>d. Inr (renderDocument d)),
      setRootUnbinds = True,
      contextValidate = testValidate,
      NSDetatch = (\<lambda>ancestors el. Inr el),
      respStatus =
        (\<lambda>info. case response info of
                   None \<Rightarrow> Inl (ErrorString ''malformed or missing auth response'')
                 | Some r \<Rightarrow> Inr (if StatusCode r = ''Success'' then Success else OtherStatus 1)),
      statusDescription = (\<lambda>info. case response info of None \<Rightarrow> [] | Some r \<Rightarrow> StatusCode r),
      rawResponse = rawResp,
      respUserID = (\<lambda>info. case response info of None \<Rightarrow> [] | Some r \<Rightarrow> NameID (Assertion r))\<rparr>"

text \<open>
  The Auth the surrounding flow hands over for a payload: its structured Response is
  the one read from the payload before any verification.
\<close>

definition received :: "element \<Rightarrow> resp" where
  "received el = \<lparr>response = Some (responseOf el), rawResp = render el\<rparr>"

definition testValidator :: "clock \<Rightarrow> validator" where
  "testValidator c =
     \<lparr>metadata = \<lparr>KeyDescriptors = [\<lparr>X509CertificateData = ''idp''\<rparr>]\<rparr>,
      clock = Some c, contextRoots = [''idp''], contextClock = Some c\<rparr>"

section \<open>Predicates of the statements\<close>

text \<open>A key descriptor whose certificate does not base64-decode, or does not parse.\<close>

definition certificateFails :: "env \<Rightarrow> KeyDescriptor \<Rightarrow> bool" where
  "certificateFails e key =
     (case b64DecodeString e (X509CertificateData key) of
        Inl err \<Rightarrow> True
      | Inr certData \<Rightarrow> (case x509ParseCertificate e certData of Inl err \<Rightarrow> True | Inr cert \<Rightarrow> False))"

definition certificateError :: "error option \<Rightarrow> bool" where
  "certificateError r =
     (case r of
        Some (WithMessage err msg) \<Rightarrow> msg = ''decoding idp x509 cert'' \<or> msg = ''parsing idp x509 cert''
      | _ \<Rightarrow> False)"

text \<open>
  The individual check of a child of the root: it is detached in its namespace
  context and the detached copy is validated. The check gives the error of the step
  that fails, or none; the child passes when there is none.
\<close>

definition assertionCheck :: "env \<Rightarrow> validator \<Rightarrow> element \<Rightarrow> element \<Rightarrow> error option" where
  "assertionCheck e v elt c =
     (case NSDetatch e [elt, c] c of
        Inl err \<Rightarrow> Some err
      | Inr detached \<Rightarrow>
          (case contextValidate e (contextRoots v) (Now e (contextClock v)) detached of
             Inl err \<Rightarrow> Some err
           | Inr signed \<Rightarrow> None))"

definition assertionValid :: "env \<Rightarrow> validator \<Rightarrow> element \<Rightarrow> element \<Rightarrow> bool" where
  "assertionValid e v elt c =
     (case NSDetatch e [elt, c] c of
        Inl err \<Rightarrow> False
      | Inr detached \<Rightarrow>
          (case contextValidate e (contextRoots v) (Now e (contextClock v)) detached of
             Inl err \<Rightarrow> False
           | Inr signed \<Rightarrow> True))"

text \<open>An assertion somewhere in a tree; an assertion whose parent is not the root.\<close>

fun hasAssertion :: "element \<Rightarrow> bool" where
  "hasAssertion (Element s t cd cs) = (isAssertion (Element s t cd cs) \<or> (\<exists>c\<in>set cs. hasAssertion c))"

definition misplacedAssertion :: "element \<Rightarrow> bool" where
  "misplacedAssertion elt = (isAssertion elt \<or> (\<exists>c\<in>set (child elt). \<exists>g\<in>set (child c). hasAssertion g))"

definition unexpectedParent :: "error option \<Rightarrow> bool" where
  "unexpectedParent r = (\<exists>t. r = errors_Errorf ''assertion with unexpected parent: '' t)"

section \<open>NewValidator fails closed\<close>

lemma loadRoots_fails:
  "key \<in> set keys \<Longrightarrow> certificateFails e key \<Longrightarrow> certificateError (fst (loadRoots e keys roots))"
proof (induction keys arbitrary: roots)
  case Nil
  then show ?case by simp
next
  case (Cons k ks)
  show ?case
  proof (cases "b64DecodeString e (X509CertificateData k)")
    case (Inl err)
    then show ?thesis by (simp add: certificateError_def)
  next
    case (Inr certData)
    note dec = this
    show ?thesis
    proof (cases "x509ParseCertificate e certData")
      case (Inl err)
      with dec show ?thesis by (simp add: certificateError_def)
    next
      case (Inr cert)
      with dec have "\<not> certificateFails e k" by (simp add: certificateFails_def)
      with Cons.prems have "key \<in> set ks" by auto
      with Cons.IH Cons.prems(2) dec Inr show ?thesis by simp
    qed
  qed
qed

text \<open>
  C6. Whenever the metadata unmarshals and one of its key descriptors holds a
  certificate that does not base64-decode or does not parse as X.509, NewValidator
  returns no validator and an error, the wrapped decoding or parsing error: no bad
  certificate is skipped.
\<close>

theorem NewValidator_fails_closed:
  assumes "xmlUnmarshalMetadata e md = Inr m"
    and "key \<in> set (KeyDescriptors m)"
    and "certificateFails e key"
  shows "fst (NewValidator e md opts) = None \<and> certificateError (snd (NewValidator e md opts))"
proof -
  from loadRoots_fails [OF assms(2) assms(3)]
  have ce: "certificateError (fst (loadRoots e (KeyDescriptors m) []))" .
  then obtain err roots where lr: "loadRoots e (KeyDescriptors m) [] = (Some err, roots)"
    by (cases "loadRoots e (KeyDescriptors m) []") (auto simp: certificateError_def split: option.splits)
  with ce assms(1) show ?thesis by (simp add: NewValidator_def)
qed

theorem NewValidator_fails_closed_witness:
  "xmlUnmarshalMetadata testEnv ''bad-base64'' =
     Inr \<lparr>KeyDescriptors = [\<lparr>X509CertificateData = ''idp''\<rparr>, \<lparr>X509CertificateData = ''!''\<rparr>]\<rparr>
   \<and> certificateFails testEnv \<lparr>X509CertificateData = ''!''\<rparr>
   \<and> NewValidator testEnv ''bad-base64'' [] =
       (None, Some (WithMessage (LibError ''illegal base64 data'') ''decoding idp x509 cert''))
   \<and> certificateError (snd (NewValidator testEnv ''bad-base64'' []))"
proof -
  have m: "xmlUnmarshalMetadata testEnv ''bad-base64'' =
     Inr \<lparr>KeyDescriptors = [\<lparr>X509CertificateData = ''idp''\<rparr>, \<lparr>X509CertificateData = ''!''\<rparr>]\<rparr>"
    by code_simp
  have k: "\<lparr>X509CertificateData = ''!''\<rparr>
      \<in> set (KeyDescriptors \<lparr>KeyDescriptors = [\<lparr>X509CertificateData = ''idp''\<rparr>, \<lparr>X509CertificateData = ''!''\<rparr>]\<rparr>)"
    by simp
  have f: "certificateFails testEnv \<lparr>X509CertificateData = ''!''\<rparr>"
    by code_simp
  have r: "NewValidator testEnv ''bad-base64'' [] =
       (None, Some (WithMessage (LibError ''illegal base64 data'') ''decoding idp x509 cert''))"
    by code_simp
  from NewValidator_fails_closed [OF m k f, of "[]"] m f r show ?thesis by simp
qed

section \<open>The type assertion\<close>

text \<open>
  C10. Both public operations start with the type assertion to the concrete resp: on
  any other implementation of the Auth interface and on a nil Auth each of them panics
  and returns nothing; the assertion itself passes on a resp.
\<close>

theorem type_assertion_panics:
  "ValidateSignature e v (OtherAuth uid) = Panic
   \<and> ValidateSignature e v NilAuth = Panic
   \<and> ValidateResponse e v (OtherAuth uid) = Panic
   \<and> ValidateResponse e v NilAuth = Panic
   \<and> ValidateSignature e v (RespAuth info) \<noteq> Panic"
  by (simp add: ValidateSignature_def ValidateResponse_def)

section \<open>ValidateSignature leaves the Auth alone on every error\<close>

lemma errors_Wrap_Some [simp]: "errors_Wrap (Some err) msg \<noteq> None"
  by simp

lemma ValidateSignature_resp_cases:
  "ValidateSignature_resp e v info = ((a, err), info1) \<Longrightarrow>
     (a = None \<and> info1 = info) \<or>
     (err = None \<and> (\<exists>r. info1 = setResponse info r \<and> a = Some (RespAuth info1)))"
  unfolding ValidateSignature_resp_def Let_def
  by (auto split: sum.splits prod.splits if_splits)

text \<open>
  C9. Whenever ValidateSignature returns a non-nil error, the Auth it returns is nil and
  the resp it was given is as it was; the resp is changed (by setResponse) only
  together with a non-nil returned Auth and a nil error.
\<close>

theorem ValidateSignature_error_leaves_auth:
  assumes "ValidateSignature e v (RespAuth info) = Returns ((a, err), info1)"
  shows "(err \<noteq> None \<longrightarrow> a = None \<and> info1 = info)
       \<and> (info1 \<noteq> info \<longrightarrow> err = None \<and> (\<exists>r. info1 = setResponse info r \<and> a = Some (RespAuth info1)))"
proof -
  from assms have "ValidateSignature_resp e v info = ((a, err), info1)"
    by (simp add: ValidateSignature_def)
  from ValidateSignature_resp_cases [OF this] show ?thesis by auto
qed

theorem ValidateSignature_error_leaves_auth_witness:
  "ValidateSignature testEnv (testValidator RealClock) (RespAuth (received docBadRootSignature)) =
     Returns ((None, Some (WithMessage (LibError ''Could not verify certificate against trusted certs'')
                 ''signing verification failed'')), received docBadRootSignature)
   \<and> ValidateSignature testEnv (testValidator RealClock)
         (RespAuth \<lparr>response = Some (responseOf docSignedVerified), rawResp = render docSigned\<rparr>) =
     Returns ((Some (RespAuth \<lparr>response = Some (responseOf docSigned), rawResp = render docSigned\<rparr>), None),
              \<lparr>response = Some (responseOf docSigned), rawResp = render docSigned\<rparr>)
   \<and> \<lparr>response = Some (responseOf docSigned), rawResp = render docSigned\<rparr>
       \<noteq> \<lparr>response = Some (responseOf docSignedVerified), rawResp = render docSigned\<rparr>"
proof -
  have a: "ValidateSignature testEnv (testValidator RealClock) (RespAuth (received docBadRootSignature)) =
     Returns ((None, Some (WithMessage (LibError ''Could not verify certificate against trusted certs'')
                 ''signing verification failed'')), received docBadRootSignature)"
    by code_simp
  have b: "ValidateSignature testEnv (testValidator RealClock)
         (RespAuth \<lparr>response = Some (responseOf docSignedVerified), rawResp = render docSigned\<rparr>) =
     Returns ((Some (RespAuth \<lparr>response = Some (responseOf docSigned), rawResp = render docSigned\<rparr>), None),
              \<lparr>response = Some (responseOf docSigned), rawResp = render docSigned\<rparr>)"
    by code_simp
  have c: "\<lparr>response = Some (responseOf docSigned), rawResp = render docSigned\<rparr>
       \<noteq> \<lparr>response = Some (responseOf docSignedVerified), rawResp = render docSigned\<rparr>"
    by code_simp
  from ValidateSignature_error_leaves_auth [OF a] ValidateSignature_error_leaves_auth [OF b] a b c
  show ?thesis by simp
qed

section \<open>ValidateResponse: the validity window\<close>

lemma ValidateResponse_resp:
  assumes "response info = Some r"
    and "timeParseRFC3339 e (NotOnOrAfter (Conditions (Assertion r))) = Inr onOrAfter"
    and "timeParseRFC3339 e (NotBefore (Conditions (Assertion r))) = Inr notBefore"
  shows "ValidateResponse e v (RespAuth info) =
     Returns (if onOrAfter < Now e (clock v) then Some (ErrorString ''response expired'')
              else if Now e (clock v) < notBefore then Some (ErrorString ''response too early'')
              else if respUserID e info = [] then Some (ErrorString ''missing user id'')
              else None)"
  using assms
  by (simp add: ValidateResponse_def Let_def After_def Before_def UserID_def errors_New_def)

text \<open>
  C2, at the right end of the window. With NotBefore = 2017-01-01T00:00:00Z and
  NotOnOrAfter = 2017-01-01T01:00:00Z, ValidateResponse returns no error when the clock
  reads exactly NotOnOrAfter: the test is "after", not "at or after". At NotBefore it
  returns no error, one second earlier "response too early", one second after
  NotOnOrAfter "response expired".
\<close>

theorem ValidateResponse_accepts_at_NotOnOrAfter:
  "timeParseRFC3339 testEnv (NotBefore (Conditions (Assertion (responseOf docSigned)))) = Inr 1483228800
   \<and> timeParseRFC3339 testEnv (NotOnOrAfter (Conditions (Assertion (responseOf docSigned)))) = Inr 1483232400
   \<and> ValidateResponse testEnv (testValidator (FakeClock 1483232400)) (RespAuth (received docSigned)) = Returns None
   \<and> ValidateResponse testEnv (testValidator (FakeClock 1483228800)) (RespAuth (received docSigned)) = Returns None
   \<and> ValidateResponse testEnv (testValidator (FakeClock 1483228799)) (RespAuth (received docSigned))
       = Returns (Some (ErrorString ''response too early''))
   \<and> ValidateResponse testEnv (testValidator (FakeClock 1483232401)) (RespAuth (received docSigned))
       = Returns (Some (ErrorString ''response expired''))"
  by code_simp

text \<open>
  C8, as the code has it. ValidateResponse on a resp returns no error exactly when the
  resp holds a Response, both timestamps parse, the clock reads a time from NotBefore
  up to and including NotOnOrAfter, and the user id is not empty. The window the code
  checks is closed at NotOnOrAfter.
\<close>

theorem ValidateResponse_nil_iff:
  "ValidateResponse e v (RespAuth info) = Returns None \<longleftrightarrow>
     (\<exists>r notBefore onOrAfter.
        response info = Some r
        \<and> timeParseRFC3339 e (NotOnOrAfter (Conditions (Assertion r))) = Inr onOrAfter
        \<and> timeParseRFC3339 e (NotBefore (Conditions (Assertion r))) = Inr notBefore
        \<and> notBefore \<le> Now e (clock v) \<and> Now e (clock v) \<le> onOrAfter
        \<and> respUserID e info \<noteq> [])"
proof (cases "response info")
  case None
  then show ?thesis by (simp add: ValidateResponse_def)
next
  case (Some r)
  note r = this
  show ?thesis
  proof (cases "timeParseRFC3339 e (NotOnOrAfter (Conditions (Assertion r)))")
    case (Inl err)
    with r show ?thesis by (simp add: ValidateResponse_def)
  next
    case (Inr onOrAfter)
    note t1 = this
    show ?thesis
    proof (cases "timeParseRFC3339 e (NotBefore (Conditions (Assertion r)))")
      case (Inl err)
      with r t1 show ?thesis by (simp add: ValidateResponse_def)
    next
      case (Inr notBefore)
      from ValidateResponse_resp [OF r t1 Inr] r t1 Inr show ?thesis by auto
    qed
  qed
qed

text \<open>Every parse failure is reported, wrapped as a missing timestamp.\<close>

lemma ValidateResponse_missing_timestamp:
  assumes "response info = Some r"
    and "timeParseRFC3339 e (NotOnOrAfter (Conditions (Assertion r))) = Inl err
         \<or> (\<exists>t. timeParseRFC3339 e (NotOnOrAfter (Conditions (Assertion r))) = Inr t)
            \<and> timeParseRFC3339 e (NotBefore (Conditions (Assertion r))) = Inl err"
  shows "ValidateResponse e v (RespAuth info) = Returns (Some (WithMessage err ''missing timestamp from condition''))"
  using assms by (auto simp: ValidateResponse_def)

section \<open>ValidateSignature: a document with no root element\<close>

lemma ValidateSignature_no_root:
  assumes "respStatus e info = Inr Success"
    and "b64DecodeString e (rawResponse e info) = Inr decoded"
    and "ReadFromBytes e decoded = (None, doc)"
    and "Root doc = None"
  shows "ValidateSignature e v (RespAuth info) = Returns ((None, None), info)"
  using assms by (simp add: ValidateSignature_def ValidateSignature_resp_def)

lemma ValidateSignature_parse_error:
  assumes "respStatus e info = Inr Success"
    and "b64DecodeString e (rawResponse e info) = Inr decoded"
    and "ReadFromBytes e decoded = (Some err, doc)"
  shows "ValidateSignature e v (RespAuth info) =
           Returns ((None, Some (WithMessage err ''parsing xml response'')), info)"
  using assms by (simp add: ValidateSignature_def ValidateSignature_resp_def)

text \<open>
  C3, for a payload that decodes to bytes with no root element (here the empty
  payload, read without error as a document with no root). ValidateSignature returns a
  nil Auth and a nil error: wrapping the nil parse error gives nil.
\<close>

theorem ValidateSignature_no_root_returns_nil_error:
  "respStatus testEnv ((received docSigned)\<lparr>rawResp := []\<rparr>) = Inr Success
   \<and> b64DecodeString testEnv (rawResponse testEnv ((received docSigned)\<lparr>rawResp := []\<rparr>)) = Inr []
   \<and> ReadFromBytes testEnv [] = (None, \<lparr>Child = []\<rparr>)
   \<and> Root \<lparr>Child = []\<rparr> = None
   \<and> ValidateSignature testEnv (testValidator RealClock) (RespAuth ((received docSigned)\<lparr>rawResp := []\<rparr>))
       = Returns ((None, None), (received docSigned)\<lparr>rawResp := []\<rparr>)"
  by code_simp

section \<open>ValidateSignature: the bytes that are parsed again\<close>

lemma setFirstElement_same: "firstElement ts = Some el \<Longrightarrow> setFirstElement el ts = ts"
  by (induction ts rule: firstElement.induct) simp_all

text \<open>
  When the whole document validates, the Response stored is read from the bytes of the
  document as it was parsed; the element the validation returned is put into a second
  document that is never written.
\<close>

lemma ValidateSignature_whole_document:
  assumes "respStatus e info = Inr Success"
    and "b64DecodeString e (rawResponse e info) = Inr decoded"
    and "ReadFromBytes e decoded = (None, doc)"
    and "Root doc = Some elt"
    and "contextValidate e (contextRoots v) (Now e (contextClock v)) elt = Inr validated"
    and "WriteToBytes e doc = Inr buffer"
    and "xmlUnmarshalResponse e buffer = Inr r"
  shows "ValidateSignature e v (RespAuth info) =
           Returns ((Some (RespAuth (setResponse info r)), None), setResponse info r)"
proof -
  from assms(4) have "setFirstElement elt (Child doc) = Child doc"
    by (simp add: Root_def setFirstElement_same)
  then have "doc\<lparr>Child := setFirstElement elt (Child doc)\<rparr> = doc" by simp
  with assms show ?thesis
    by (simp add: ValidateSignature_def ValidateSignature_resp_def validateSignature_def SetRoot_def Let_def)
qed

text \<open>
  When per-assertion validation succeeds, the element returned is the root of the
  document itself; the bytes written are those of the document after the root was
  given to the second document: without the root, when that unbinds it.
\<close>

lemma ValidateSignature_fallback_document:
  assumes "respStatus e info = Inr Success"
    and "b64DecodeString e (rawResponse e info) = Inr decoded"
    and "ReadFromBytes e decoded = (None, doc)"
    and "Root doc = Some elt"
    and "validateSignature e v elt = (Inr EltRef, elt1, cl)"
  shows "ValidateSignature e v (RespAuth info) =
           Returns
            (case WriteToBytes e
                    (if setRootUnbinds e then doc\<lparr>Child := removeFirstElement (Child doc)\<rparr>
                     else doc\<lparr>Child := setFirstElement elt1 (Child doc)\<rparr>) of
               Inl err2 \<Rightarrow> ((None, Some (WithMessage err2 ''creating signed doc buffer'')), info)
             | Inr buffer \<Rightarrow>
                 (case xmlUnmarshalResponse e buffer of
                    Inl err3 \<Rightarrow> ((None, Some (WithMessage err3 ''unmarshalling signed doc'')), info)
                  | Inr r \<Rightarrow> ((Some (RespAuth (setResponse info r)), None), setResponse info r)))"
  using assms
  by (simp add: ValidateSignature_def ValidateSignature_resp_def SetRoot_def Let_def split: sum.splits)

text \<open>
  A payload with a second top-level element, under a \<^verbatim>\<open>SetRoot\<close> that unbinds:
  the first element passes per-assertion validation and leaves the document, and the
  Response stored is read from the second one, which nothing verified.
\<close>

lemma ValidateSignature_fallback_stores_other_element:
  "ReadFromBytes testEnv (renderDocument docTwoRoots) = (None, docTwoRoots)
   \<and> Root docTwoRoots = Some docAssertionSigned
   \<and> fst (validateSignature testEnv (testValidator RealClock) docAssertionSigned) = Inr EltRef
   \<and> ValidateSignature testEnv (testValidator RealClock)
         (RespAuth \<lparr>response = Some (responseOf docAssertionSigned), rawResp = renderDocument docTwoRoots\<rparr>)
       = Returns ((Some (RespAuth \<lparr>response = Some (responseOf docForged), rawResp = renderDocument docTwoRoots\<rparr>), None),
                  \<lparr>response = Some (responseOf docForged), rawResp = renderDocument docTwoRoots\<rparr>)
   \<and> NameID (Assertion (responseOf docForged)) = ''mallory''"
  by code_simp

text \<open>
  C1, on a response signed as a whole. The validation returns the root without its
  signature; the bytes of that element unmarshal to a Response with no signature
  part; the Response that ValidateSignature stores is the one of the document as it
  was received, signature part included.
\<close>

theorem ValidateSignature_stores_unverified_document:
  "fst (validateSignature testEnv (testValidator RealClock) docSigned) = Inr (NewElt docSignedVerified)
   \<and> WriteToBytes testEnv \<lparr>Child = [ElementToken docSignedVerified]\<rparr> = Inr (render docSignedVerified)
   \<and> xmlUnmarshalResponse testEnv (render docSignedVerified) = Inr (responseOf docSignedVerified)
   \<and> ValidateSignature testEnv (testValidator RealClock) (RespAuth (received docSigned))
       = Returns ((Some (RespAuth (setResponse (received docSigned) (responseOf docSigned))), None),
                  setResponse (received docSigned) (responseOf docSigned))
   \<and> Rest (responseOf docSigned) = [''Signature'']
   \<and> Rest (responseOf docSignedVerified) = []"
  by code_simp

section \<open>The traversal below the children of the root\<close>

declare NSTraverse.simps [simp del]

lemma hasAssertion_iff: "hasAssertion el = (isAssertion el \<or> (\<exists>c\<in>set (child el). hasAssertion c))"
  by (cases el) simp

lemma validateAssertion_unexpected_parent:
  "Parent path \<noteq> Some [] \<Longrightarrow>
     validateAssertion e v ancestors path el st =
       (errors_Errorf ''assertion with unexpected parent: '' (ParentTag ancestors), st)"
  by (simp add: validateAssertion_def)

lemma Parent_deep: "2 \<le> length path \<Longrightarrow> Parent path \<noteq> Some []"
  by (cases path rule: rev_cases) (auto simp: Parent_def)

lemma unexpectedParent_simps [simp]:
  "unexpectedParent (errors_Errorf ''assertion with unexpected parent: '' t)"
  "\<not> unexpectedParent None"
  by (auto simp: unexpectedParent_def errors_Errorf_def)

text \<open>
  Below the children of the root the handler can only fail: the traversal leaves the
  state as it is, and it returns an error, the unexpected-parent one, exactly when it
  meets an assertion.
\<close>

lemma NSTraverse_deep:
  "2 \<le> length path \<Longrightarrow>
     snd (NSTraverse e v ancestors path el st) = st \<and>
     (if hasAssertion el then unexpectedParent (fst (NSTraverse e v ancestors path el st))
      else fst (NSTraverse e v ancestors path el st) = None)"
  and NSTraverseChildren_deep:
  "1 \<le> length path \<Longrightarrow>
     snd (NSTraverseChildren e v ancestors path i cs st) = st \<and>
     (if \<exists>c\<in>set cs. hasAssertion c then unexpectedParent (fst (NSTraverseChildren e v ancestors path i cs st))
      else fst (NSTraverseChildren e v ancestors path i cs st) = None)"
proof (induction e v ancestors path el st and e v ancestors path i cs st
       rule: NSTraverse_NSTraverseChildren.induct)
  case (1 e v ancestors path el st)
  show ?case
  proof (cases "isAssertion el")
    case True
    with "1.prems" show ?thesis
      by (simp add: NSTraverse.simps [of e v ancestors path el st]
            validateAssertion_unexpected_parent [OF Parent_deep] hasAssertion_iff [of el]
            errors_Errorf_def unexpectedParent_def)
  next
    case False
    from "1.prems" have len: "1 \<le> length path" by simp
    from "1.IH" [of None st] False len
    have ih: "snd (NSTraverseChildren e v (ancestors @ [el]) path 0 (child el) st) = st \<and>
       (if \<exists>c\<in>set (child el). hasAssertion c
        then unexpectedParent (fst (NSTraverseChildren e v (ancestors @ [el]) path 0 (child el) st))
        else fst (NSTraverseChildren e v (ancestors @ [el]) path 0 (child el) st) = None)"
      by simp
    from False have eq: "NSTraverse e v ancestors path el st =
        NSTraverseChildren e v (ancestors @ [el]) path 0 (child el) st"
      by (simp add: NSTraverse.simps [of e v ancestors path el st])
    from ih False show ?thesis unfolding eq hasAssertion_iff [of el] by simp
  qed
next
  case (2 e v ancestors path i st)
  show ?case by simp
next
  case (3 e v ancestors path i c cs st)
  from "3.prems" have len2: "2 \<le> length (path @ [i])" by simp
  from "3.IH"(1) [OF len2]
  have ih1: "snd (NSTraverse e v ancestors (path @ [i]) c st) = st"
    and ih1e: "if hasAssertion c then unexpectedParent (fst (NSTraverse e v ancestors (path @ [i]) c st))
               else fst (NSTraverse e v ancestors (path @ [i]) c st) = None"
    by simp_all
  show ?case
  proof (cases "hasAssertion c")
    case True
    with ih1e obtain err where "fst (NSTraverse e v ancestors (path @ [i]) c st) = Some err"
      and "unexpectedParent (Some err)"
      by (cases "fst (NSTraverse e v ancestors (path @ [i]) c st)") auto
    with ih1 have "NSTraverse e v ancestors (path @ [i]) c st = (Some err, st)"
      by (metis prod.collapse)
    with True \<open>unexpectedParent (Some err)\<close> show ?thesis by simp
  next
    case False
    with ih1e ih1 have eq: "NSTraverse e v ancestors (path @ [i]) c st = (None, st)"
      by (metis prod.collapse)
    from "3.IH"(2) [of None st] eq "3.prems"
    have "snd (NSTraverseChildren e v ancestors path (Suc i) cs st) = st \<and>
       (if \<exists>c\<in>set cs. hasAssertion c
        then unexpectedParent (fst (NSTraverseChildren e v ancestors path (Suc i) cs st))
        else fst (NSTraverseChildren e v ancestors path (Suc i) cs st) = None)"
      by simp
    with eq False show ?thesis by simp
  qed
qed

section \<open>The traversal over the children of the root\<close>

lemma Parent_child [simp]: "Parent [i] = Some []"
  by (simp add: Parent_def)

lemma assertionValid_check: "assertionValid e v elt c \<longleftrightarrow> assertionCheck e v elt c = None"
  by (simp add: assertionValid_def assertionCheck_def split: sum.splits)

text \<open>
  What the visit of one child of the root does. An assertion that does not pass its
  check stops the traversal with the error of the check and stays among the children.
  Any other child goes through (a valid assertion is swapped for its validated copy),
  and the visit fails, with the unexpected-parent error, exactly when an assertion
  lies below.
\<close>

lemma NSTraverse_child:
  assumes "NSTraverse e v [elt] [i] x st = (r, st1)"
  shows "(isAssertion x \<and> \<not> assertionValid e v elt x \<and> r \<noteq> None \<and> r = assertionCheck e v elt x
            \<and> kids st1 = kids st)
       \<or> ((isAssertion x \<longrightarrow> assertionValid e v elt x)
            \<and> (if \<exists>g\<in>set (child x). hasAssertion g then unexpectedParent r else r = None)
            \<and> (kids st1 = kids st \<or> (\<exists>signed. kids st1 = AddChild signed (RemoveChild i (kids st)))))"
proof (cases "isAssertion x")
  case False
  from NSTraverseChildren_deep [of "[i]" e v "[elt, x]" 0 "child x" st] assms False
  show ?thesis
    by (auto simp: NSTraverse.simps [of e v "[elt]" "[i]" x st] split: if_splits)
next
  case True
  note a = this
  show ?thesis
  proof (cases "assertionValid e v elt x")
    case False
    with a assms show ?thesis
      by (auto simp: NSTraverse.simps [of e v "[elt]" "[i]" x st] validateAssertion_def
            assertionValid_def assertionCheck_def Let_def split: sum.splits)
  next
    case True
    then obtain detached signed where d: "NSDetatch e [elt, x] x = Inr detached"
      and s: "contextValidate e (contextRoots v) (Now e (contextClock v)) detached = Inr signed"
      by (auto simp: assertionValid_def split: sum.splits)
    let ?st1 = "st\<lparr>calls := calls st @ [CallValidate detached],
                 kids := AddChild signed (RemoveChild i (kids st))\<rparr>"
    from a d s have h: "validateAssertion e v [elt] [i] x st = (None, ?st1)"
      by (simp add: validateAssertion_def Let_def)
    with a assms have eq: "NSTraverseChildren e v [elt, x] [i] 0 (child x) ?st1 = (r, st1)"
      by (simp add: NSTraverse.simps [of e v "[elt]" "[i]" x st])
    have "snd (NSTraverseChildren e v [elt, x] [i] 0 (child x) ?st1) = ?st1 \<and>
       (if \<exists>g\<in>set (child x). hasAssertion g
        then unexpectedParent (fst (NSTraverseChildren e v [elt, x] [i] 0 (child x) ?st1))
        else fst (NSTraverseChildren e v [elt, x] [i] 0 (child x) ?st1) = None)"
      by (rule NSTraverseChildren_deep) simp
    then have "st1 = ?st1 \<and> (if \<exists>g\<in>set (child x). hasAssertion g then unexpectedParent r else r = None)"
      unfolding eq fst_conv snd_conv by blast
    with True show ?thesis by auto
  qed
qed

lemma RemoveChild_other: "j \<noteq> i \<Longrightarrow> (Some j, c) \<in> set ks \<Longrightarrow> (Some j, c) \<in> set (AddChild s (RemoveChild i ks))"
  by (simp add: AddChild_def RemoveChild_def)

text \<open>
  The loop over the children of the root: it ends in an error as soon as one child has
  an assertion below it or is an assertion that does not pass its check.
\<close>

lemma NSTraverseChildren_root_error:
  "\<exists>c\<in>set cs. (\<exists>g\<in>set (child c). hasAssertion g) \<or> (isAssertion c \<and> \<not> assertionValid e v elt c) \<Longrightarrow>
     fst (NSTraverseChildren e v [elt] [] i cs st) \<noteq> None"
proof (induction cs arbitrary: i st)
  case Nil
  then show ?case by simp
next
  case (Cons x xs)
  obtain r st1 where vis: "NSTraverse e v [elt] [i] x st = (r, st1)"
    by (cases "NSTraverse e v [elt] [i] x st")
  show ?case
  proof (cases r)
    case (Some err)
    with vis show ?thesis by simp
  next
    case None
    with NSTraverse_child [OF vis]
    have "\<not> (\<exists>g\<in>set (child x). hasAssertion g)" and "isAssertion x \<longrightarrow> assertionValid e v elt x"
      by (auto split: if_splits)
    with Cons.prems
    have "\<exists>c\<in>set xs. (\<exists>g\<in>set (child c). hasAssertion g) \<or> (isAssertion c \<and> \<not> assertionValid e v elt c)"
      by auto
    from Cons.IH [OF this, of "Suc i" st1] vis None show ?thesis by simp
  qed
qed



text \<open>
  The loop ends without error when every child passes its check (where it is an
  assertion) and has no assertion below it.
\<close>

lemma NSTraverseChildren_root_clean:
  "\<forall>c\<in>set cs. (isAssertion c \<longrightarrow> assertionValid e v elt c) \<and> \<not> (\<exists>g\<in>set (child c). hasAssertion g) \<Longrightarrow>
     fst (NSTraverseChildren e v [elt] [] i cs st) = None"
proof (induction cs arbitrary: i st)
  case Nil
  then show ?case by simp
next
  case (Cons y ys)
  obtain r st1 where vis: "NSTraverse e v [elt] [i] y st = (r, st1)"
    by (cases "NSTraverse e v [elt] [i] y st")
  from NSTraverse_child [OF vis] Cons.prems have none: "r = None"
    by (auto split: if_splits)
  from Cons.prems
  have "\<forall>c\<in>set ys. (isAssertion c \<longrightarrow> assertionValid e v elt c) \<and> \<not> (\<exists>g\<in>set (child c). hasAssertion g)"
    by simp
  from Cons.IH [OF this, of "Suc i" st1] vis none show ?case by simp
qed

text \<open>
  A child of the root that is an assertion and does not pass its check stays among the
  children, whatever the loop does to the others.
\<close>

lemma NSTraverseChildren_root_keeps:
  assumes "(Some j, c) \<in> set (kids st)"
    and "\<forall>m<length cs. i + m = j \<longrightarrow> isAssertion (cs ! m) \<and> \<not> assertionValid e v elt (cs ! m)"
  shows "(Some j, c) \<in> set (kids (snd (NSTraverseChildren e v [elt] [] i cs st)))"
  using assms
proof (induction cs arbitrary: i st)
  case Nil
  then show ?case by simp
next
  case (Cons x xs)
  obtain r st1 where vis: "NSTraverse e v [elt] [i] x st = (r, st1)"
    by (cases "NSTraverse e v [elt] [i] x st")
  have keep: "(Some j, c) \<in> set (kids st1)"
  proof (cases "i = j")
    case True
    with Cons.prems(2) [rule_format, of 0] have "isAssertion x \<and> \<not> assertionValid e v elt x" by simp
    with NSTraverse_child [OF vis] Cons.prems(1) show ?thesis by auto
  next
    case False
    with NSTraverse_child [OF vis] Cons.prems(1) show ?thesis
      by (auto simp: RemoveChild_other)
  qed
  show ?case
  proof (cases r)
    case (Some err)
    with vis keep show ?thesis by simp
  next
    case None
    have "\<forall>m<length xs. Suc i + m = j \<longrightarrow> isAssertion (xs ! m) \<and> \<not> assertionValid e v elt (xs ! m)"
    proof (intro allI impI)
      fix m assume "m < length xs" and "Suc i + m = j"
      with Cons.prems(2) [rule_format, of "Suc m"]
      show "isAssertion (xs ! m) \<and> \<not> assertionValid e v elt (xs ! m)" by simp
    qed
    from Cons.IH [OF keep this] vis None show ?thesis by simp
  qed
qed

lemma NSTraverse_root:
  "NSTraverse e v [] [] elt st =
     (if isAssertion elt then (errors_Errorf ''assertion with unexpected parent: '' [], st)
      else NSTraverseChildren e v [elt] [] 0 (child elt) st)"
  by (simp add: NSTraverse.simps [of e v "[]" "[]" elt st] validateAssertion_def Parent_def
        ParentTag_def errors_Errorf_def)

lemma enumerate_kids_mem:
  "j < length cs \<Longrightarrow> (Some j, cs ! j) \<in> set (enumerate_kids cs)"
  unfolding enumerate_kids_def set_zip by (rule CollectI, rule exI [of _ j]) simp

text \<open>
  Per-assertion validation as a whole: the error is the one of the traversal from the
  root, and the root it leaves has the children the traversal left.
\<close>

lemma validateAssertionSignature_root:
  "fst (validateAssertionSignature e v elt cl) =
     (if isAssertion elt then errors_Errorf ''assertion with unexpected parent: '' []
      else fst (NSTraverseChildren e v [elt] [] 0 (child elt)
                  \<lparr>kids = enumerate_kids (child elt), calls = cl @ [CallValidateAssertionSignature]\<rparr>))"
  by (simp add: validateAssertionSignature_def NSFindIterate_def NSTraverse_root split: prod.splits)
section \<open>The calls of the verifier\<close>

lemma validateAssertion_calls:
  "set (calls st) \<subseteq> set (calls (snd (validateAssertion e v ancestors path el st)))"
  by (auto simp: validateAssertion_def Let_def split: sum.splits)

lemma NSTraverse_calls:
  "set (calls st) \<subseteq> set (calls (snd (NSTraverse e v ancestors path el st)))"
  and NSTraverseChildren_calls:
  "set (calls st) \<subseteq> set (calls (snd (NSTraverseChildren e v ancestors path i cs st)))"
proof (induction e v ancestors path el st and e v ancestors path i cs st
       rule: NSTraverse_NSTraverseChildren.induct)
  case (1 e v ancestors path el st)
  obtain r st1 where h: "(if isAssertion el then validateAssertion e v ancestors path el st else (None, st)) = (r, st1)"
    by (cases "if isAssertion el then validateAssertion e v ancestors path el st else (None, st)")
  then have sub: "set (calls st) \<subseteq> set (calls st1)"
    using validateAssertion_calls [of st e v ancestors path el] by (auto split: if_splits)
  show ?case
  proof (cases r)
    case (Some err)
    with h sub show ?thesis by (simp add: NSTraverse.simps [of e v ancestors path el st])
  next
    case None
    with "1.IH" [of None st1] h
    have "set (calls st1) \<subseteq> set (calls (snd (NSTraverseChildren e v (ancestors @ [el]) path 0 (child el) st1)))"
      by simp
    with None h sub show ?thesis by (auto simp: NSTraverse.simps [of e v ancestors path el st])
  qed
next
  case (2 e v ancestors path i st)
  show ?case by simp
next
  case (3 e v ancestors path i c cs st)
  obtain r st1 where h: "NSTraverse e v ancestors (path @ [i]) c st = (r, st1)"
    by (cases "NSTraverse e v ancestors (path @ [i]) c st")
  with "3.IH"(1) have sub: "set (calls st) \<subseteq> set (calls st1)" by simp
  show ?case
  proof (cases r)
    case (Some err)
    with h sub show ?thesis by simp
  next
    case None
    with "3.IH"(2) [of None st1] h
    have "set (calls st1) \<subseteq> set (calls (snd (NSTraverseChildren e v ancestors path (Suc i) cs st1)))"
      by simp
    with None h sub show ?thesis by auto
  qed
qed

lemma validateAssertionSignature_calls:
  "CallValidateAssertionSignature \<in> set (snd (snd (validateAssertionSignature e v elt cl)))"
proof -
  let ?st = "\<lparr>kids = enumerate_kids (child elt), calls = cl @ [CallValidateAssertionSignature]\<rparr>"
  have "set (calls ?st) \<subseteq> set (calls (snd (NSTraverse e v [] [] elt ?st)))"
    by (rule NSTraverse_calls)
  then have "CallValidateAssertionSignature \<in> set (calls (snd (NSTraverse e v [] [] elt ?st)))"
    by auto
  then show ?thesis
    by (auto simp: validateAssertionSignature_def NSFindIterate_def split: prod.splits)
qed

text \<open>
  Per-assertion validation ends without error exactly when no assertion has a parent
  other than the root and every assertion among the children of the root passes its
  check.
\<close>

lemma validateAssertionSignature_accepts_iff:
  "fst (validateAssertionSignature e v elt cl) = None \<longleftrightarrow>
     \<not> misplacedAssertion elt \<and> (\<forall>c\<in>set (child elt). isAssertion c \<longrightarrow> assertionValid e v elt c)"
proof (cases "isAssertion elt")
  case True
  then show ?thesis
    by (simp add: validateAssertionSignature_root misplacedAssertion_def errors_Errorf_def)
next
  case False
  let ?st = "\<lparr>kids = enumerate_kids (child elt), calls = cl @ [CallValidateAssertionSignature]\<rparr>"
  let ?r = "fst (NSTraverseChildren e v [elt] [] 0 (child elt) ?st)"
  from False have res: "fst (validateAssertionSignature e v elt cl) = ?r"
    by (simp add: validateAssertionSignature_root)
  show ?thesis
  proof
    assume "fst (validateAssertionSignature e v elt cl) = None"
    with res have none: "?r = None" by simp
    have "\<not> (\<exists>c\<in>set (child elt). (\<exists>g\<in>set (child c). hasAssertion g)
                 \<or> (isAssertion c \<and> \<not> assertionValid e v elt c))"
      using NSTraverseChildren_root_error [where cs = "child elt" and e = e and v = v and elt = elt
          and i = 0 and st = ?st] none
      by blast
    with False show "\<not> misplacedAssertion elt \<and> (\<forall>c\<in>set (child elt). isAssertion c \<longrightarrow> assertionValid e v elt c)"
      by (auto simp: misplacedAssertion_def)
  next
    assume a: "\<not> misplacedAssertion elt \<and> (\<forall>c\<in>set (child elt). isAssertion c \<longrightarrow> assertionValid e v elt c)"
    then have "\<forall>c\<in>set (child elt). (isAssertion c \<longrightarrow> assertionValid e v elt c)
                 \<and> \<not> (\<exists>g\<in>set (child c). hasAssertion g)"
      by (auto simp: misplacedAssertion_def)
    from NSTraverseChildren_root_clean [OF this, where i = 0 and st = ?st] res
    show "fst (validateAssertionSignature e v elt cl) = None" by simp
  qed
qed

text \<open>
  C4. The verifier enters per-assertion validation if and only if the validation of the
  whole document fails with the missing-signature value. On any other failure it
  returns that failure, with the root untouched and no call but the one validation; on
  success it returns the validated element, again after that one call. On a missing
  signature its result is the result of per-assertion validation: the error of that
  validation, or the root itself as that validation left it; and it returns the root
  only when no assertion has a parent other than the root and every assertion among
  the children of the root passes its own check.
\<close>

theorem validateSignature_fallback_gating:
  "(CallValidateAssertionSignature \<in> set (snd (snd (validateSignature e v elt)))
      \<longleftrightarrow> contextValidate e (contextRoots v) (Now e (contextClock v)) elt = Inl ErrMissingSignature)
   \<and> (\<forall>err. contextValidate e (contextRoots v) (Now e (contextClock v)) elt = Inl err
          \<longrightarrow> err \<noteq> ErrMissingSignature
          \<longrightarrow> validateSignature e v elt = (Inl err, elt, [CallValidate elt]))
   \<and> (\<forall>validated. contextValidate e (contextRoots v) (Now e (contextClock v)) elt = Inr validated
          \<longrightarrow> validateSignature e v elt = (Inr (NewElt validated), elt, [CallValidate elt]))
   \<and> (contextValidate e (contextRoots v) (Now e (contextClock v)) elt = Inl ErrMissingSignature
        \<longrightarrow> (\<forall>err1 elt1 cl. validateAssertionSignature e v elt [CallValidate elt] = (Some err1, elt1, cl)
                \<longrightarrow> validateSignature e v elt = (Inl err1, elt1, cl))
          \<and> (\<forall>elt1 cl. validateAssertionSignature e v elt [CallValidate elt] = (None, elt1, cl)
                \<longrightarrow> validateSignature e v elt = (Inr EltRef, elt1, cl))
          \<and> (fst (validateSignature e v elt) = Inr EltRef
                \<longleftrightarrow> \<not> misplacedAssertion elt
                    \<and> (\<forall>c\<in>set (child elt). isAssertion c \<longrightarrow> assertionValid e v elt c)))"
proof (cases "contextValidate e (contextRoots v) (Now e (contextClock v)) elt")
  case (Inr validated)
  then show ?thesis by (simp add: validateSignature_def)
next
  case (Inl err)
  show ?thesis
  proof (cases "err = ErrMissingSignature")
    case False
    with Inl show ?thesis by (simp add: validateSignature_def)
  next
    case True
    obtain r elt1 cl where f: "validateAssertionSignature e v elt [CallValidate elt] = (r, elt1, cl)"
      by (cases "validateAssertionSignature e v elt [CallValidate elt]") auto
    with validateAssertionSignature_calls [of e v elt "[CallValidate elt]"]
    have m: "CallValidateAssertionSignature \<in> set cl" by simp
    from validateAssertionSignature_accepts_iff [of e v elt "[CallValidate elt]"] f
    have acc: "r = None \<longleftrightarrow>
        \<not> misplacedAssertion elt \<and> (\<forall>c\<in>set (child elt). isAssertion c \<longrightarrow> assertionValid e v elt c)"
      by simp
    show ?thesis
    proof (cases r)
      case None
      with Inl True f m acc show ?thesis by (simp add: validateSignature_def)
    next
      case (Some err1)
      with Inl True f m acc show ?thesis by (simp add: validateSignature_def)
    qed
  qed
qed

theorem validateSignature_fallback_gating_witness:
  "contextValidate testEnv (contextRoots (testValidator RealClock))
       (Now testEnv (contextClock (testValidator RealClock))) docBadRootSignature
     = Inl (LibError ''Could not verify certificate against trusted certs'')
   \<and> validateSignature testEnv (testValidator RealClock) docBadRootSignature
     = (Inl (LibError ''Could not verify certificate against trusted certs''),
        docBadRootSignature, [CallValidate docBadRootSignature])
   \<and> contextValidate testEnv (contextRoots (testValidator RealClock))
       (Now testEnv (contextClock (testValidator RealClock))) docSigned
     = Inr docSignedVerified
   \<and> validateSignature testEnv (testValidator RealClock) docSigned
     = (Inr (NewElt docSignedVerified), docSigned, [CallValidate docSigned])
   \<and> contextValidate testEnv (contextRoots (testValidator RealClock))
       (Now testEnv (contextClock (testValidator RealClock))) docAssertionSigned
     = Inl ErrMissingSignature
   \<and> CallValidateAssertionSignature
       \<in> set (snd (snd (validateSignature testEnv (testValidator RealClock) docAssertionSigned)))
   \<and> validateAssertionSignature testEnv (testValidator RealClock) docAssertionSigned [CallValidate docAssertionSigned]
     = (None, responseElt [statusCode ''Success'', assertion [] ''alice'' []],
        [CallValidate docAssertionSigned, CallValidateAssertionSignature,
         CallValidate (assertion [sig ''idp''] ''alice'' [])])
   \<and> validateSignature testEnv (testValidator RealClock) docAssertionSigned
     = (Inr EltRef, responseElt [statusCode ''Success'', assertion [] ''alice'' []],
        [CallValidate docAssertionSigned, CallValidateAssertionSignature,
         CallValidate (assertion [sig ''idp''] ''alice'' [])])
   \<and> \<not> misplacedAssertion docAssertionSigned
   \<and> contextValidate testEnv (contextRoots (testValidator RealClock))
       (Now testEnv (contextClock (testValidator RealClock))) docUnsigned
     = Inl ErrMissingSignature
   \<and> validateAssertionSignature testEnv (testValidator RealClock) docUnsigned [CallValidate docUnsigned]
     = (Some ErrMissingSignature, docUnsigned,
        [CallValidate docUnsigned, CallValidateAssertionSignature, CallValidate (assertion [] ''alice'' [])])
   \<and> validateSignature testEnv (testValidator RealClock) docUnsigned
     = (Inl ErrMissingSignature, docUnsigned,
        [CallValidate docUnsigned, CallValidateAssertionSignature, CallValidate (assertion [] ''alice'' [])])
   \<and> assertion [] ''alice'' [] \<in> set (child docUnsigned)
   \<and> isAssertion (assertion [] ''alice'' [])
   \<and> \<not> assertionValid testEnv (testValidator RealClock) docUnsigned (assertion [] ''alice'' [])"
proof -
  have a: "contextValidate testEnv (contextRoots (testValidator RealClock))
       (Now testEnv (contextClock (testValidator RealClock))) docBadRootSignature
     = Inl (LibError ''Could not verify certificate against trusted certs'')"
    by code_simp
  have b: "contextValidate testEnv (contextRoots (testValidator RealClock))
       (Now testEnv (contextClock (testValidator RealClock))) docSigned
     = Inr docSignedVerified"
    by code_simp
  have c: "contextValidate testEnv (contextRoots (testValidator RealClock))
       (Now testEnv (contextClock (testValidator RealClock))) docAssertionSigned
     = Inl ErrMissingSignature"
    by code_simp
  have d: "contextValidate testEnv (contextRoots (testValidator RealClock))
       (Now testEnv (contextClock (testValidator RealClock))) docUnsigned
     = Inl ErrMissingSignature"
    by code_simp
  have fc: "validateAssertionSignature testEnv (testValidator RealClock) docAssertionSigned [CallValidate docAssertionSigned]
     = (None, responseElt [statusCode ''Success'', assertion [] ''alice'' []],
        [CallValidate docAssertionSigned, CallValidateAssertionSignature,
         CallValidate (assertion [sig ''idp''] ''alice'' [])])"
    by code_simp
  have fd: "validateAssertionSignature testEnv (testValidator RealClock) docUnsigned [CallValidate docUnsigned]
     = (Some ErrMissingSignature, docUnsigned,
        [CallValidate docUnsigned, CallValidateAssertionSignature, CallValidate (assertion [] ''alice'' [])])"
    by code_simp
  have m: "\<not> misplacedAssertion docAssertionSigned" by code_simp
  have u: "assertion [] ''alice'' [] \<in> set (child docUnsigned)" by code_simp
  have ia: "isAssertion (assertion [] ''alice'' [])" by code_simp
  have nv: "\<not> assertionValid testEnv (testValidator RealClock) docUnsigned (assertion [] ''alice'' [])"
    by code_simp
  from validateSignature_fallback_gating [of testEnv "testValidator RealClock" docBadRootSignature] a
  have ra: "validateSignature testEnv (testValidator RealClock) docBadRootSignature
     = (Inl (LibError ''Could not verify certificate against trusted certs''),
        docBadRootSignature, [CallValidate docBadRootSignature])"
    by simp
  from validateSignature_fallback_gating [of testEnv "testValidator RealClock" docSigned] b
  have rb: "validateSignature testEnv (testValidator RealClock) docSigned
     = (Inr (NewElt docSignedVerified), docSigned, [CallValidate docSigned])"
    by simp
  from validateSignature_fallback_gating [of testEnv "testValidator RealClock" docAssertionSigned] c fc
  have rc: "CallValidateAssertionSignature
       \<in> set (snd (snd (validateSignature testEnv (testValidator RealClock) docAssertionSigned)))"
    and rc2: "validateSignature testEnv (testValidator RealClock) docAssertionSigned
     = (Inr EltRef, responseElt [statusCode ''Success'', assertion [] ''alice'' []],
        [CallValidate docAssertionSigned, CallValidateAssertionSignature,
         CallValidate (assertion [sig ''idp''] ''alice'' [])])"
    by blast+
  from validateSignature_fallback_gating [of testEnv "testValidator RealClock" docUnsigned] d fd
  have rd: "validateSignature testEnv (testValidator RealClock) docUnsigned
     = (Inl ErrMissingSignature, docUnsigned,
        [CallValidate docUnsigned, CallValidateAssertionSignature, CallValidate (assertion [] ''alice'' [])])"
    by blast
  from a b c d fc fd m u ia nv ra rb rc rc2 rd show ?thesis by blast
qed
section \<open>Per-assertion validation\<close>




text \<open>
  An assertion among the children of the root that does not pass its check makes
  per-assertion validation return an error, and the verifier entered through a missing
  signature on the root returns that error and no element. The assertion is still a
  child of the root then: the handler returns before it removes anything.
\<close>

lemma validateAssertionSignature_invalid_assertion:
  assumes "c \<in> set (child elt)"
    and "isAssertion c"
    and "\<not> assertionValid e v elt c"
  shows "fst (validateAssertionSignature e v elt cl) \<noteq> None
       \<and> c \<in> set (child (fst (snd (validateAssertionSignature e v elt cl))))
       \<and> (contextValidate e (contextRoots v) (Now e (contextClock v)) elt = Inl ErrMissingSignature
            \<longrightarrow> isl (fst (validateSignature e v elt)))"
proof -
  have err: "fst (validateAssertionSignature e v elt cl) \<noteq> None" for cl
    using assms validateAssertionSignature_accepts_iff [of e v elt cl] by blast
  have kept: "c \<in> set (child (fst (snd (validateAssertionSignature e v elt cl))))"
  proof -
    let ?st = "\<lparr>kids = enumerate_kids (child elt), calls = cl @ [CallValidateAssertionSignature]\<rparr>"
    from assms(1) obtain j where j: "j < length (child elt)" and cj: "child elt ! j = c"
      by (auto simp: in_set_conv_nth)
    from enumerate_kids_mem [OF j] cj have mem: "(Some j, c) \<in> set (kids ?st)" by simp
    obtain r st1 where t: "NSTraverse e v [] [] elt ?st = (r, st1)"
      by (cases "NSTraverse e v [] [] elt ?st")
    have res: "fst (snd (validateAssertionSignature e v elt cl))
        = Element (space elt) (tag elt) (chardata elt) (map snd (kids st1))"
      using t by (simp add: validateAssertionSignature_def NSFindIterate_def)
    have "(Some j, c) \<in> set (kids st1)"
    proof (cases "isAssertion elt")
      case True
      with t mem show ?thesis by (auto simp: NSTraverse_root)
    next
      case False
      with t have ch: "NSTraverseChildren e v [elt] [] 0 (child elt) ?st = (r, st1)"
        by (simp add: NSTraverse_root)
      have "\<forall>m<length (child elt). 0 + m = j \<longrightarrow>
              isAssertion (child elt ! m) \<and> \<not> assertionValid e v elt (child elt ! m)"
        using cj assms(2,3) by simp
      from NSTraverseChildren_root_keeps [OF mem this] ch show ?thesis by simp
    qed
    then have "c \<in> snd ` set (kids st1)"
      by (auto simp: image_iff intro: bexI [of _ "(Some j, c)"])
    with res show ?thesis by simp
  qed
  have "isl (fst (validateSignature e v elt))"
    if "contextValidate e (contextRoots v) (Now e (contextClock v)) elt = Inl ErrMissingSignature"
  proof -
    obtain r elt1 cl1 where f: "validateAssertionSignature e v elt [CallValidate elt] = (r, elt1, cl1)"
      by (cases "validateAssertionSignature e v elt [CallValidate elt]") auto
    with err [of "[CallValidate elt]"] obtain e1 where "r = Some e1" by auto
    with that f show ?thesis by (simp add: validateSignature_def)
  qed
  with err [of cl] kept show ?thesis by blast
qed

text \<open>
  C7, on a response with no signature on the root and one assertion, unsigned. The
  check of the assertion fails with the missing-signature value; per-assertion
  validation returns that error, and so does the verifier, with no element. The root
  it leaves is the root it was given: the unsigned assertion is still its child, not
  removed before the failure is returned.
\<close>

theorem validateAssertionSignature_keeps_unsigned_assertion:
  "isAssertion (assertion [] ''alice'' [])
   \<and> assertion [] ''alice'' [] \<in> set (child docUnsigned)
   \<and> assertionCheck testEnv (testValidator RealClock) docUnsigned (assertion [] ''alice'' [])
       = Some ErrMissingSignature
   \<and> validateAssertionSignature testEnv (testValidator RealClock) docUnsigned []
       = (Some ErrMissingSignature, docUnsigned,
          [CallValidateAssertionSignature, CallValidate (assertion [] ''alice'' [])])
   \<and> validateSignature testEnv (testValidator RealClock) docUnsigned
       = (Inl ErrMissingSignature, docUnsigned,
          [CallValidate docUnsigned, CallValidateAssertionSignature, CallValidate (assertion [] ''alice'' [])])
   \<and> assertion [] ''alice'' []
       \<in> set (child (fst (snd (validateAssertionSignature testEnv (testValidator RealClock) docUnsigned []))))"
  by code_simp

end
